theory Spec2Isabelle
  imports Complex_Main "HOL-Library.Sublist"
begin

section \<open>The two source files\<close>

text \<open>
  The repository holds the monitor twice: the module \<^verbatim>\<open>pylmsensonrs/sm.py\<close> and the
  script \<^verbatim>\<open>src/sensors-monitor.py\<close>. Most functions are the same text in both; where
  they differ, the function below takes the file as its first argument and has one branch
  for each.
\<close>

datatype source_file = Sm_py | Sensors_monitor_py

datatype error = KeyError | ValueError

section \<open>The configuration store\<close>

text \<open>
  \<^verbatim>\<open>config\<close> is a \<^verbatim>\<open>configparser.ConfigParser\<close>, filled once by \<^verbatim>\<open>load_config\<close>:
  its sections (a section maps option names to string values) and the options of the
  \<^verbatim>\<open>DEFAULT\<close> section, which every section inherits. The parser's lookups are modelled
  as the library defines them: option names go through \<^verbatim>\<open>optionxform\<close> (lower case; here
  on ASCII letters), a lookup in a section falls back to \<^verbatim>\<open>DEFAULT\<close>. Values are the
  strings a lookup hands back; the parser's \<^verbatim>\<open>%\<close> interpolation is outside the model.
\<close>

record config =
  sections :: "string \<rightharpoonup> (string \<rightharpoonup> string)"
  defaults :: "string \<rightharpoonup> string"

definition empty_config :: config where
  "empty_config = \<lparr>sections = Map.empty, defaults = Map.empty\<rparr>"

definition default_section :: string where
  "default_section = ''DEFAULT''"

definition lower_char :: "char \<Rightarrow> char" where
  "lower_char c =
     (let n = (of_char c :: nat) in if 65 \<le> n \<and> n \<le> 90 then char_of (n + 32) else c)"

definition lower :: "string \<Rightarrow> string" where
  "lower s = map lower_char s"

definition optionxform :: "string \<Rightarrow> string" where
  "optionxform optionstr = lower optionstr"

definition has_section :: "config \<Rightarrow> string \<Rightarrow> bool" where
  "has_section c s = (sections c s \<noteq> None)"

text \<open>\<^verbatim>\<open>section in config\<close>\<close>

definition contains :: "config \<Rightarrow> string \<Rightarrow> bool" where
  "contains c s = (s = default_section \<or> has_section c s)"

text \<open>\<^verbatim>\<open>key in config[section]\<close>, for a section that \<^verbatim>\<open>config\<close> contains\<close>

definition has_option :: "config \<Rightarrow> string \<Rightarrow> string \<Rightarrow> bool" where
  "has_option c s k =
     (if s = [] \<or> s = default_section then defaults c (optionxform k) \<noteq> None
      else (case sections c s of
              None \<Rightarrow> False
            | Some sec \<Rightarrow> sec (optionxform k) \<noteq> None \<or> defaults c (optionxform k) \<noteq> None))"

text \<open>\<^verbatim>\<open>config[section][key]\<close>: the section's own value first, then the default's.\<close>

definition getitem :: "config \<Rightarrow> string \<Rightarrow> string \<Rightarrow> error + string" where
  "getitem c s k =
     (if \<not> contains c s \<or> \<not> has_option c s k then Inl KeyError
      else (case (case sections c s of None \<Rightarrow> None | Some sec \<Rightarrow> sec (optionxform k)) of
              Some v \<Rightarrow> Inr v
            | None \<Rightarrow> (case defaults c (optionxform k) of
                         Some v \<Rightarrow> Inr v
                       | None \<Rightarrow> Inl KeyError)))"

subsection \<open>The typed getters\<close>

text \<open>
  \<^verbatim>\<open>getboolean\<close> accepts the eight words of \<^verbatim>\<open>BOOLEAN_STATES\<close> in any case and raises
  \<^verbatim>\<open>ValueError\<close> on anything else. \<^verbatim>\<open>getint\<close> and \<^verbatim>\<open>getfloat\<close> apply \<^verbatim>\<open>int\<close> and
  \<^verbatim>\<open>float\<close>, which raise \<^verbatim>\<open>ValueError\<close> on a string they cannot read; they are modelled
  on plain ASCII decimal literals (an optional sign, digits, for \<^verbatim>\<open>float\<close> an optional
  point), and a float is the real number its literal denotes.
\<close>

definition convert_to_boolean :: "string \<Rightarrow> error + bool" where
  "convert_to_boolean v =
     (if lower v \<in> set [''1'', ''yes'', ''true'', ''on''] then Inr True
      else if lower v \<in> set [''0'', ''no'', ''false'', ''off''] then Inr False
      else Inl ValueError)"

definition digit_val :: "char \<Rightarrow> nat option" where
  "digit_val c =
     (let n = (of_char c :: nat) in if 48 \<le> n \<and> n \<le> 57 then Some (n - 48) else None)"

fun digits_acc :: "nat \<Rightarrow> string \<Rightarrow> nat option" where
  "digits_acc n [] = Some n"
| "digits_acc n (c # cs) =
     (case digit_val c of None \<Rightarrow> None | Some d \<Rightarrow> digits_acc (10 * n + d) cs)"

definition digits_val :: "string \<Rightarrow> nat option" where
  "digits_val s = (if s = [] then None else digits_acc 0 s)"

definition unsigned_float :: "string \<Rightarrow> real option" where
  "unsigned_float s =
     (let ip = takeWhile (\<lambda>c. c \<noteq> CHR ''.'') s; rest = dropWhile (\<lambda>c. c \<noteq> CHR ''.'') s
      in case rest of
           [] \<Rightarrow> map_option real (digits_val ip)
         | _ # fp \<Rightarrow>
             if ip = [] \<and> fp = [] then None
             else (case (digits_acc 0 ip, digits_acc 0 fp) of
                     (Some a, Some b) \<Rightarrow> Some (real a + real b / 10 ^ length fp)
                   | _ \<Rightarrow> None))"

definition py_int :: "string \<Rightarrow> error + int" where
  "py_int s =
     (case (case s of
              c # r \<Rightarrow> if c = CHR ''-'' then map_option (\<lambda>n. - int n) (digits_val r)
                       else if c = CHR ''+'' then map_option int (digits_val r)
                       else map_option int (digits_val s)
            | [] \<Rightarrow> None) of
        None \<Rightarrow> Inl ValueError
      | Some n \<Rightarrow> Inr n)"

definition py_float :: "string \<Rightarrow> error + real" where
  "py_float s =
     (case (case s of
              c # r \<Rightarrow> if c = CHR ''-'' then map_option uminus (unsigned_float r)
                       else if c = CHR ''+'' then unsigned_float r
                       else unsigned_float s
            | [] \<Rightarrow> None) of
        None \<Rightarrow> Inl ValueError
      | Some x \<Rightarrow> Inr x)"

definition getboolean :: "config \<Rightarrow> string \<Rightarrow> string \<Rightarrow> error + bool" where
  "getboolean c s k = (case getitem c s k of Inl e \<Rightarrow> Inl e | Inr v \<Rightarrow> convert_to_boolean v)"

definition getint :: "config \<Rightarrow> string \<Rightarrow> string \<Rightarrow> error + int" where
  "getint c s k = (case getitem c s k of Inl e \<Rightarrow> Inl e | Inr v \<Rightarrow> py_int v)"

definition getfloat :: "config \<Rightarrow> string \<Rightarrow> string \<Rightarrow> error + real" where
  "getfloat c s k = (case getitem c s k of Inl e \<Rightarrow> Inl e | Inr v \<Rightarrow> py_float v)"

subsection \<open>\<^verbatim>\<open>load_config\<close>\<close>



subsection \<open>\<^verbatim>\<open>get_config_value\<close> (sm.py)\<close>

datatype value_type = Str_type | Int_type | Float_type | Bool_type | Other_type

datatype config_value = VStr string | VInt int | VFloat real | VBool bool | VNone

definition get_config_value ::
  "config \<Rightarrow> string \<Rightarrow> string \<Rightarrow> value_type \<Rightarrow> config_value \<Rightarrow> error + config_value" where
  "get_config_value c section key vt default_value =
     (if section \<noteq> [] \<and> key \<noteq> [] \<and> contains c section \<and> has_option c section key then
        (case vt of
           Str_type \<Rightarrow> map_sum id VStr (getitem c section key)
         | Int_type \<Rightarrow> map_sum id VInt (getint c section key)
         | Float_type \<Rightarrow> map_sum id VFloat (getfloat c section key)
         | Bool_type \<Rightarrow> map_sum id VBool (getboolean c section key)
         | Other_type \<Rightarrow> Inr default_value)
      else Inr default_value)"

text \<open>Python's truth value of a configuration value, as \<^verbatim>\<open>if not ...\<close> takes it.\<close>

fun truthy :: "config_value \<Rightarrow> bool" where
  "truthy (VStr s) = (s \<noteq> [])"
| "truthy (VInt n) = (n \<noteq> 0)"
| "truthy (VFloat x) = (x \<noteq> 0)"
| "truthy (VBool b) = b"
| "truthy VNone = False"

text \<open>
  The string a lookup of kind \<^verbatim>\<open>str\<close> with a string default returns; such a lookup
  neither raises nor returns another kind (lemma \<open>get_config_value_str\<close> below).
\<close>

fun str_result :: "error + config_value \<Rightarrow> string" where
  "str_result (Inr (VStr s)) = s"
| "str_result _ = undefined"

subsection \<open>The derived queries\<close>

text \<open>
  In the script the queries read \<^verbatim>\<open>config[chip_id][key]\<close> themselves, behind the test
  that the section and the option exist; the read then returns (lemma
  \<open>getitem_present\<close> below).
\<close>

definition get_custom_sensor_label :: "source_file \<Rightarrow> config \<Rightarrow> string \<Rightarrow> string \<Rightarrow> string" where
  "get_custom_sensor_label f c chip_id sensor_id =
     (case f of
        Sm_py \<Rightarrow> str_result (get_config_value c chip_id sensor_id Str_type (VStr sensor_id))
      | Sensors_monitor_py \<Rightarrow>
          if contains c chip_id \<and> has_option c chip_id sensor_id
          then (case getitem c chip_id sensor_id of Inr v \<Rightarrow> v | Inl _ \<Rightarrow> undefined)
          else sensor_id)"

definition get_custom_chip_label :: "source_file \<Rightarrow> config \<Rightarrow> string \<Rightarrow> string" where
  "get_custom_chip_label f c chip_id =
     (case f of
        Sm_py \<Rightarrow> str_result (get_config_value c chip_id ''label'' Str_type (VStr chip_id))
      | Sensors_monitor_py \<Rightarrow>
          if contains c chip_id \<and> has_option c chip_id ''label''
          then (case getitem c chip_id ''label'' of Inr v \<Rightarrow> v | Inl _ \<Rightarrow> undefined)
          else chip_id)"

definition is_chip_visible :: "source_file \<Rightarrow> config \<Rightarrow> string \<Rightarrow> error + config_value" where
  "is_chip_visible f c chip_id =
     (case f of
        Sm_py \<Rightarrow> get_config_value c chip_id ''visible'' Bool_type (VBool True)
      | Sensors_monitor_py \<Rightarrow>
          if contains c chip_id \<and> has_option c chip_id ''visible''
          then map_sum id VBool (getboolean c chip_id ''visible'')
          else Inr (VBool True))"

text \<open>\<^verbatim>\<open>s.split(",")\<close>: the pieces between the commas; the empty string has one empty piece.\<close>

fun str_split :: "char \<Rightarrow> string \<Rightarrow> string list" where
  "str_split sep [] = [[]]"
| "str_split sep (c # cs) =
     (if c = sep then [] # str_split sep cs
      else (case str_split sep cs of
              w # ws \<Rightarrow> (c # w) # ws
            | [] \<Rightarrow> [[c]]))"

definition is_sensoer_visible :: "source_file \<Rightarrow> config \<Rightarrow> string \<Rightarrow> string \<Rightarrow> bool" where
  "is_sensoer_visible f c chip_id sensor_id =
     (case f of
        Sm_py \<Rightarrow>
          (let hidden_sensoers =
             str_split (CHR '','')
               (str_result (get_config_value c chip_id ''hidden_sensoers'' Str_type (VStr [])))
           in if sensor_id \<in> set hidden_sensoers then False else True)
      | Sensors_monitor_py \<Rightarrow>
          if contains c chip_id \<and> has_option c chip_id ''hidden_sensoers'' then
            (let hidden_sensoers =
               str_split (CHR '','')
                 (case getitem c chip_id ''hidden_sensoers'' of Inr v \<Rightarrow> v | Inl _ \<Rightarrow> undefined)
             in if sensor_id \<in> set hidden_sensoers then False else True)
          else True)"

section \<open>Chip ordering\<close>

text \<open>
  \<^verbatim>\<open>chip_sort_order\<close> maps compiled patterns \<^verbatim>\<open>^prefix.*\<close> to ranks; \<^verbatim>\<open>.*\<close> matches
  any rest, so a pattern matches exactly the ids starting with its prefix. The rules are kept
  as (prefix, rank) pairs in the dictionary's order. \<^verbatim>\<open>sys.maxsize\<close> is that of a 64-bit
  interpreter.
\<close>

definition maxsize :: int where
  "maxsize = 2 ^ 63 - 1"

definition chip_sort_order :: "source_file \<Rightarrow> (string \<times> int) list" where
  "chip_sort_order f =
     (case f of
        Sm_py \<Rightarrow> [(''coretemp-'', 1), (''drivetemp-'', 2), (''acpitz-'', 3)]
      | Sensors_monitor_py \<Rightarrow>
          [(''coretemp-'', 1), (''drivetemp-'', 2), (''nvme-'', 3), (''acpitz-'', 4)])"

fun first_match :: "(string \<times> int) list \<Rightarrow> string \<Rightarrow> int" where
  "first_match [] chip_id = maxsize - 1"
| "first_match ((key, v) # rules) chip_id =
     (if prefix key chip_id then v else first_match rules chip_id)"

definition get_chip_order :: "source_file \<Rightarrow> string \<Rightarrow> int" where
  "get_chip_order f chip_id = first_match (chip_sort_order f) chip_id"

section \<open>Presentation rules\<close>

text \<open>
  A \<^verbatim>\<open>rich.text.Text\<close> is kept as the number it shows (none for \<^verbatim>\<open>Text("")\<close>) and its
  style; the formatting of the number and the unit suffix are not modelled. Readings are
  real numbers: Python compares a reading with the product exactly, and the product
  \<^verbatim>\<open>high * .8\<close> is taken without the rounding of a double.
\<close>

datatype style = No_style | Bold_red | Red | Yellow | Green

datatype rich_text = Text "real option" style

definition get_colored_temp :: "real option \<Rightarrow> real option \<Rightarrow> rich_text" where
  "get_colored_temp temp high =
     (case temp of
        None \<Rightarrow> Text None No_style
      | Some t \<Rightarrow>
          (let high = (case high of None \<Rightarrow> real_of_int maxsize | Some h \<Rightarrow> h)
           in if t \<ge> high * 0.8 then Text (Some t) Bold_red
              else if t \<ge> high * 0.6 then Text (Some t) Yellow
              else Text (Some t) Green))"

definition get_colored_fan :: "real option \<Rightarrow> rich_text" where
  "get_colored_fan speed =
     (case speed of None \<Rightarrow> Text None No_style | Some s \<Rightarrow> Text (Some s) Green)"

definition get_colored_voltage :: "real option \<Rightarrow> real option \<Rightarrow> real option \<Rightarrow> rich_text" where
  "get_colored_voltage voltage min_voltage max_voltage =
     (case voltage of
        None \<Rightarrow> Text None No_style
      | Some v \<Rightarrow>
          (let min_voltage = (case min_voltage of None \<Rightarrow> real_of_int (- maxsize - 1) | Some m \<Rightarrow> m);
               max_voltage = (case max_voltage of None \<Rightarrow> real_of_int maxsize | Some m \<Rightarrow> m)
           in if v < min_voltage then Text (Some v) Yellow
              else if v > max_voltage then Text (Some v) Red
              else Text (Some v) Green))"

text \<open>
  The severity tier a text displays, in the specification's words: red is the critical
  tier, yellow the warning tier, green the normal tier, and the unstyled empty text
  displays nothing.
\<close>

datatype tier = Normal | Warning | Critical

fun tier_of :: "rich_text \<Rightarrow> tier option" where
  "tier_of (Text _ No_style) = None"
| "tier_of (Text _ Bold_red) = Some Critical"
| "tier_of (Text _ Red) = Some Critical"
| "tier_of (Text _ Yellow) = Some Warning"
| "tier_of (Text _ Green) = Some Normal"

section \<open>The data model\<close>

text \<open>
  The classes of the source, as records; a subclass extends its base. The readings are of
  any type \<open>'v\<close>: the classifier stores the values of the raw tree as they come and
  never looks into them. A field holding \<^verbatim>\<open>None\<close> is \<open>None\<close> here.
\<close>

record Sensoer =
  chip_id :: string
  sensor_id :: string
  default_chip_label :: "string option"
  chip_label :: string
  sensor_label :: string
  chip_order :: int

record 'v FanSpeed = Sensoer +
  fan_value :: "'v option"
  fan_min :: "'v option"

record 'v Voltage = Sensoer +
  volt_value :: "'v option"
  volt_min :: "'v option"
  volt_max :: "'v option"

record 'v Temp = Sensoer +
  temp_value :: "'v option"
  temp_high :: "'v option"
  temp_critical :: "'v option"

record 'v HddTemp = "'v Temp" +
  hdd_lowest :: "'v option"
  hdd_highest :: "'v option"

text \<open>
  The raw tree \<^verbatim>\<open>sensors_json\<close>: a dictionary from chip ids to dictionaries from
  field-group ids to entries; an entry is a dictionary of raw fields or something else
  (the adapter line), which is kept as the string that formatting it gives. Dictionaries
  are association lists in the dictionary's order; a Python dictionary has each key once
  (\<open>py_dict\<close> below).
\<close>

type_synonym 'v fields = "(string \<times> 'v) list"

datatype 'v entry = Mapping "'v fields" | Other string

type_synonym 'v chip_data = "(string \<times> 'v entry) list"

type_synonym 'v sensors_json = "(string \<times> 'v chip_data) list"

record 'v SensorsData =
  volts :: "'v Voltage list"
  temps :: "'v Temp list"
  hdd_temps :: "'v HddTemp list"
  fans :: "'v FanSpeed list"
  raw_data :: "'v sensors_json"

definition new_SensorsData :: "'v sensors_json \<Rightarrow> 'v SensorsData" where
  "new_SensorsData raw =
     \<lparr>volts = [], temps = [], hdd_temps = [], fans = [], raw_data = raw\<rparr>"

definition new_FanSpeed ::
  "source_file \<Rightarrow> config \<Rightarrow> string \<Rightarrow> string \<Rightarrow> string option \<Rightarrow> 'v FanSpeed" where
  "new_FanSpeed f c chip sensoer_id label =
     \<lparr>chip_id = chip, sensor_id = sensoer_id, default_chip_label = label,
      chip_label = get_custom_chip_label f c chip,
      sensor_label = get_custom_sensor_label f c chip sensoer_id,
      chip_order = get_chip_order f chip,
      fan_value = None, fan_min = None\<rparr>"

definition new_Voltage ::
  "source_file \<Rightarrow> config \<Rightarrow> string \<Rightarrow> string \<Rightarrow> string option \<Rightarrow> 'v Voltage" where
  "new_Voltage f c chip sensoer_id label =
     \<lparr>chip_id = chip, sensor_id = sensoer_id, default_chip_label = label,
      chip_label = get_custom_chip_label f c chip,
      sensor_label = get_custom_sensor_label f c chip sensoer_id,
      chip_order = get_chip_order f chip,
      volt_value = None, volt_min = None, volt_max = None\<rparr>"

definition new_Temp ::
  "source_file \<Rightarrow> config \<Rightarrow> string \<Rightarrow> string \<Rightarrow> string option \<Rightarrow> 'v Temp" where
  "new_Temp f c chip sensoer_id label =
     \<lparr>chip_id = chip, sensor_id = sensoer_id, default_chip_label = label,
      chip_label = get_custom_chip_label f c chip,
      sensor_label = get_custom_sensor_label f c chip sensoer_id,
      chip_order = get_chip_order f chip,
      temp_value = None, temp_high = None, temp_critical = None\<rparr>"

definition new_HddTemp ::
  "source_file \<Rightarrow> config \<Rightarrow> string \<Rightarrow> string \<Rightarrow> string option \<Rightarrow> 'v HddTemp" where
  "new_HddTemp f c chip sensoer_id label =
     \<lparr>chip_id = chip, sensor_id = sensoer_id, default_chip_label = label,
      chip_label = get_custom_chip_label f c chip,
      sensor_label = get_custom_sensor_label f c chip sensoer_id,
      chip_order = get_chip_order f chip,
      temp_value = None, temp_high = None, temp_critical = None,
      hdd_lowest = None, hdd_highest = None\<rparr>"

section \<open>The classifier\<close>

definition ADAPTER_PROP :: string where
  "ADAPTER_PROP = ''Adapter''"

text \<open>
  \<^verbatim>\<open>d.setdefault(k, new).attr = value\<close>: the record under \<open>k\<close> gets the attribute, and
  when \<open>d\<close> has no \<open>k\<close> the new record is stored under it first, after the keys there are.
\<close>

definition setdefault_set ::
  "(string \<times> 'r) list \<Rightarrow> string \<Rightarrow> 'r \<Rightarrow> ('r \<Rightarrow> 'r) \<Rightarrow> (string \<times> 'r) list" where
  "setdefault_set d k new assign =
     (case map_of d k of
        None \<Rightarrow> d @ [(k, assign new)]
      | Some _ \<Rightarrow> map (\<lambda>(k', r). (k', if k' = k then assign r else r)) d)"

text \<open>The four dictionaries of one field group.\<close>

record 'v group_dicts =
  d_temps :: "(string \<times> 'v Temp) list"
  d_hdd_temps :: "(string \<times> 'v HddTemp) list"
  d_volts :: "(string \<times> 'v Voltage) list"
  d_fans :: "(string \<times> 'v FanSpeed) list"

definition empty_dicts :: "'v group_dicts" where
  "empty_dicts = \<lparr>d_temps = [], d_hdd_temps = [], d_volts = [], d_fans = []\<rparr>"

text \<open>Which chips have their temperatures among the drives'.\<close>

definition is_drive :: "source_file \<Rightarrow> string \<Rightarrow> bool" where
  "is_drive f chip =
     (case f of
        Sm_py \<Rightarrow> prefix ''drivetemp'' chip \<or> prefix ''nvme'' chip
      | Sensors_monitor_py \<Rightarrow> prefix ''drivetemp'' chip)"

text \<open>The body of the loop over the raw fields of a group.\<close>

definition classify_field ::
  "source_file \<Rightarrow> config \<Rightarrow> string \<Rightarrow> string \<Rightarrow> string option \<Rightarrow>
   'v group_dicts \<Rightarrow> string \<times> 'v \<Rightarrow> 'v group_dicts" where
  "classify_field f c chip sensor adapter g nv =
     (let name = fst nv; v = snd nv in
      if prefix ''temp'' name then
        if is_drive f chip then
          if suffix ''_input'' name then
            g\<lparr>d_hdd_temps := setdefault_set (d_hdd_temps g) sensor
                 (new_HddTemp f c chip sensor adapter) (\<lambda>r. r\<lparr>temp_value := Some v\<rparr>)\<rparr>
          else if suffix ''_max'' name then
            g\<lparr>d_hdd_temps := setdefault_set (d_hdd_temps g) sensor
                 (new_HddTemp f c chip sensor adapter) (\<lambda>r. r\<lparr>temp_high := Some v\<rparr>)\<rparr>
          else if suffix ''_crit'' name then
            g\<lparr>d_hdd_temps := setdefault_set (d_hdd_temps g) sensor
                 (new_HddTemp f c chip sensor adapter) (\<lambda>r. r\<lparr>temp_critical := Some v\<rparr>)\<rparr>
          else if suffix ''_lowest'' name then
            g\<lparr>d_hdd_temps := setdefault_set (d_hdd_temps g) sensor
                 (new_HddTemp f c chip sensor adapter) (\<lambda>r. r\<lparr>hdd_lowest := Some v\<rparr>)\<rparr>
          else if suffix ''_highest'' name then
            g\<lparr>d_hdd_temps := setdefault_set (d_hdd_temps g) sensor
                 (new_HddTemp f c chip sensor adapter) (\<lambda>r. r\<lparr>hdd_highest := Some v\<rparr>)\<rparr>
          else g
        else
          if suffix ''_input'' name then
            g\<lparr>d_temps := setdefault_set (d_temps g) sensor
                 (new_Temp f c chip sensor adapter) (\<lambda>r. r\<lparr>temp_value := Some v\<rparr>)\<rparr>
          else if suffix ''_max'' name then
            g\<lparr>d_temps := setdefault_set (d_temps g) sensor
                 (new_Temp f c chip sensor adapter) (\<lambda>r. r\<lparr>temp_high := Some v\<rparr>)\<rparr>
          else if suffix ''_crit'' name then
            g\<lparr>d_temps := setdefault_set (d_temps g) sensor
                 (new_Temp f c chip sensor adapter) (\<lambda>r. r\<lparr>temp_critical := Some v\<rparr>)\<rparr>
          else g
      else if prefix ''fan'' name then
        if suffix ''_input'' name then
          g\<lparr>d_fans := setdefault_set (d_fans g) sensor
               (new_FanSpeed f c chip sensor adapter) (\<lambda>r. r\<lparr>fan_value := Some v\<rparr>)\<rparr>
        else if suffix ''_min'' name then
          g\<lparr>d_fans := setdefault_set (d_fans g) sensor
               (new_FanSpeed f c chip sensor adapter) (\<lambda>r. r\<lparr>fan_min := Some v\<rparr>)\<rparr>
        else g
      else if prefix ''in'' name then
        if suffix ''_input'' name then
          g\<lparr>d_volts := setdefault_set (d_volts g) sensor
               (new_Voltage f c chip sensor adapter) (\<lambda>r. r\<lparr>volt_value := Some v\<rparr>)\<rparr>
        else if suffix ''_min'' name then
          g\<lparr>d_volts := setdefault_set (d_volts g) sensor
               (new_Voltage f c chip sensor adapter) (\<lambda>r. r\<lparr>volt_min := Some v\<rparr>)\<rparr>
        else if suffix ''_max'' name then
          g\<lparr>d_volts := setdefault_set (d_volts g) sensor
               (new_Voltage f c chip sensor adapter) (\<lambda>r. r\<lparr>volt_max := Some v\<rparr>)\<rparr>
        else g
      else g)"

text \<open>The loop over the raw fields: the dictionaries of the group when it ends.\<close>

definition classify_group ::
  "source_file \<Rightarrow> config \<Rightarrow> string \<Rightarrow> string \<Rightarrow> string option \<Rightarrow> 'v fields \<Rightarrow> 'v group_dicts" where
  "classify_group f c chip sensor adapter sensoer_values =
     foldl (classify_field f c chip sensor adapter) empty_dicts sensoer_values"

text \<open>
  The body of the loop over the entries of a chip: an entry that is no dictionary and a
  hidden sensor are passed over (the type is tested first, so that visibility is asked of
  dictionaries only); otherwise the records of the group are appended to the output.
\<close>

definition classify_entry ::
  "source_file \<Rightarrow> config \<Rightarrow> string \<Rightarrow> string option \<Rightarrow>
   'v SensorsData \<Rightarrow> string \<times> 'v entry \<Rightarrow> 'v SensorsData" where
  "classify_entry f c chip adapter output se =
     (case snd se of
        Other _ \<Rightarrow> output
      | Mapping sensoer_values \<Rightarrow>
          if \<not> is_sensoer_visible f c chip (fst se) then output
          else
            (let g = classify_group f c chip (fst se) adapter sensoer_values in
             output\<lparr>temps := temps output @ map snd (d_temps g),
                    hdd_temps := hdd_temps output @ map snd (d_hdd_temps g),
                    volts := volts output @ map snd (d_volts g),
                    fans := fans output @ map snd (d_fans g)\<rparr>))"

text \<open>
  The adapter of a chip: the formatted \<^verbatim>\<open>Adapter\<close> entry, when the chip has one. How
  Python formats a dictionary is the parameter \<open>dict_str\<close>.
\<close>

definition get_adapter :: "('v fields \<Rightarrow> string) \<Rightarrow> 'v chip_data \<Rightarrow> string option" where
  "get_adapter dict_str chip_data =
     (case map_of chip_data ADAPTER_PROP of
        None \<Rightarrow> None
      | Some (Other s) \<Rightarrow> Some s
      | Some (Mapping m) \<Rightarrow> Some (dict_str m))"

text \<open>
  The loop over the chips. \<^verbatim>\<open>is_chip_visible\<close> raises \<^verbatim>\<open>ValueError\<close> on a
  \<^verbatim>\<open>visible\<close> option that is no boolean word, and nothing catches it.
\<close>

fun classify_chips ::
  "source_file \<Rightarrow> ('v fields \<Rightarrow> string) \<Rightarrow> config \<Rightarrow>
   'v SensorsData \<Rightarrow> 'v sensors_json \<Rightarrow> error + 'v SensorsData" where
  "classify_chips f dict_str c output [] = Inr output"
| "classify_chips f dict_str c output ((chip, chip_data) # rest) =
     (case is_chip_visible f c chip of
        Inl e \<Rightarrow> Inl e
      | Inr visible \<Rightarrow>
          if \<not> truthy visible then classify_chips f dict_str c output rest
          else classify_chips f dict_str c
                 (foldl (classify_entry f c chip (get_adapter dict_str chip_data)) output chip_data)
                 rest)"

text \<open>\<^verbatim>\<open>sorted\<close> is stable; so is \<open>sort_key\<close>.\<close>

definition sort_output :: "'v SensorsData \<Rightarrow> 'v SensorsData" where
  "sort_output output =
     output\<lparr>temps := sort_key chip_order (temps output),
            hdd_temps := sort_key chip_order (hdd_temps output),
            volts := sort_key chip_order (volts output),
            fans := sort_key chip_order (fans output)\<rparr>"

definition parse_sensors_json ::
  "source_file \<Rightarrow> ('v fields \<Rightarrow> string) \<Rightarrow> config \<Rightarrow> 'v sensors_json \<Rightarrow> error + 'v SensorsData" where
  "parse_sensors_json f dict_str c sensors_json =
     map_sum id sort_output (classify_chips f dict_str c (new_SensorsData sensors_json) sensors_json)"

section \<open>The vocabulary of the specification\<close>

text \<open>
  The definitions of this section are not code of the repository: they say what the
  statements below are about, in the words of the specification.
\<close>

subsection \<open>The rows of the tables\<close>


definition voltage_current :: "(real, 'a) Voltage_scheme \<Rightarrow> rich_text" where
  "voltage_current r = get_colored_voltage (volt_value r) (volt_min r) (volt_max r)"

subsection \<open>Configured values\<close>

text \<open>
  The value stored for an option of a section, when the section and the option exist;
  and that value read as a kind, when it reads as that kind.
\<close>

definition configured :: "config \<Rightarrow> string \<Rightarrow> string \<Rightarrow> string option" where
  "configured c section key =
     (if contains c section \<and> has_option c section key
      then (case getitem c section key of Inr v \<Rightarrow> Some v | Inl _ \<Rightarrow> None)
      else None)"

definition parse_as :: "value_type \<Rightarrow> string \<Rightarrow> config_value option" where
  "parse_as vt v =
     (case vt of
        Str_type \<Rightarrow> Some (VStr v)
      | Int_type \<Rightarrow> (case py_int v of Inr n \<Rightarrow> Some (VInt n) | Inl _ \<Rightarrow> None)
      | Float_type \<Rightarrow> (case py_float v of Inr x \<Rightarrow> Some (VFloat x) | Inl _ \<Rightarrow> None)
      | Bool_type \<Rightarrow> (case convert_to_boolean v of Inr b \<Rightarrow> Some (VBool b) | Inl _ \<Rightarrow> None)
      | Other_type \<Rightarrow> None)"


subsection \<open>Categories and routing\<close>

datatype category = Temperature | DriveTemperature | Fan | Voltage

definition ends_with_any :: "string list \<Rightarrow> string \<Rightarrow> bool" where
  "ends_with_any sufs name = list_ex (\<lambda>s. suffix s name) sufs"

text \<open>
  Step 4 of the classifier: the category a raw field of a chip goes to, by its prefix and
  its suffix; none for a field that is ignored.
\<close>

definition routes_to :: "source_file \<Rightarrow> string \<Rightarrow> string \<Rightarrow> category option" where
  "routes_to f chip name =
     (if prefix ''temp'' name then
        (if is_drive f chip then
           (if ends_with_any [''_input'', ''_max'', ''_crit'', ''_lowest'', ''_highest''] name
            then Some DriveTemperature else None)
         else
           (if ends_with_any [''_input'', ''_max'', ''_crit''] name
            then Some Temperature else None))
      else if prefix ''fan'' name then
        (if ends_with_any [''_input'', ''_min''] name then Some Fan else None)
      else if prefix ''in'' name then
        (if ends_with_any [''_input'', ''_min'', ''_max''] name then Some Voltage else None)
      else None)"

text \<open>
  A raw field name is recognized when it starts with one of the three prefixes and ends
  with a suffix recognized for that prefix (for \<^verbatim>\<open>temp\<close>, the extrema only on a drive).
\<close>

definition recognized :: "source_file \<Rightarrow> string \<Rightarrow> string \<Rightarrow> bool" where
  "recognized f chip name =
     (prefix ''temp'' name \<and>
        ends_with_any (if is_drive f chip
                       then [''_input'', ''_max'', ''_crit'', ''_lowest'', ''_highest'']
                       else [''_input'', ''_max'', ''_crit'']) name
      \<or> prefix ''fan'' name \<and> ends_with_any [''_input'', ''_min''] name
      \<or> prefix ''in'' name \<and> ends_with_any [''_input'', ''_min'', ''_max''] name)"

text \<open>The attribute of a record that a raw field sets, by the suffix of its name.\<close>

definition assign_temp :: "'v Temp \<Rightarrow> string \<times> 'v \<Rightarrow> 'v Temp" where
  "assign_temp r nv =
     (if suffix ''_input'' (fst nv) then r\<lparr>temp_value := Some (snd nv)\<rparr>
      else if suffix ''_max'' (fst nv) then r\<lparr>temp_high := Some (snd nv)\<rparr>
      else if suffix ''_crit'' (fst nv) then r\<lparr>temp_critical := Some (snd nv)\<rparr>
      else r)"

definition assign_hdd_temp :: "'v HddTemp \<Rightarrow> string \<times> 'v \<Rightarrow> 'v HddTemp" where
  "assign_hdd_temp r nv =
     (if suffix ''_input'' (fst nv) then r\<lparr>temp_value := Some (snd nv)\<rparr>
      else if suffix ''_max'' (fst nv) then r\<lparr>temp_high := Some (snd nv)\<rparr>
      else if suffix ''_crit'' (fst nv) then r\<lparr>temp_critical := Some (snd nv)\<rparr>
      else if suffix ''_lowest'' (fst nv) then r\<lparr>hdd_lowest := Some (snd nv)\<rparr>
      else if suffix ''_highest'' (fst nv) then r\<lparr>hdd_highest := Some (snd nv)\<rparr>
      else r)"

definition assign_fan :: "'v FanSpeed \<Rightarrow> string \<times> 'v \<Rightarrow> 'v FanSpeed" where
  "assign_fan r nv =
     (if suffix ''_input'' (fst nv) then r\<lparr>fan_value := Some (snd nv)\<rparr>
      else if suffix ''_min'' (fst nv) then r\<lparr>fan_min := Some (snd nv)\<rparr>
      else r)"

definition assign_volt :: "'v Voltage \<Rightarrow> string \<times> 'v \<Rightarrow> 'v Voltage" where
  "assign_volt r nv =
     (if suffix ''_input'' (fst nv) then r\<lparr>volt_value := Some (snd nv)\<rparr>
      else if suffix ''_min'' (fst nv) then r\<lparr>volt_min := Some (snd nv)\<rparr>
      else if suffix ''_max'' (fst nv) then r\<lparr>volt_max := Some (snd nv)\<rparr>
      else r)"

text \<open>
  The raw fields of a group merged into one record of a category: the fields that go to
  the category are assigned to the new record, one after the other.
\<close>

definition merge ::
  "category \<Rightarrow> source_file \<Rightarrow> string \<Rightarrow> ('r \<Rightarrow> string \<times> 'v \<Rightarrow> 'r) \<Rightarrow> 'r \<Rightarrow> 'v fields \<Rightarrow> 'r" where
  "merge cat f chip assign new fs =
     foldl (\<lambda>r nv. if routes_to f chip (fst nv) = Some cat then assign r nv else r) new fs"

text \<open>A group contributes fields to a category when one of its fields goes there.\<close>

definition contributes :: "category \<Rightarrow> source_file \<Rightarrow> string \<Rightarrow> 'v fields \<Rightarrow> bool" where
  "contributes cat f chip fs = list_ex (\<lambda>nv. routes_to f chip (fst nv) = Some cat) fs"

subsection \<open>The visible field groups of a raw tree\<close>

text \<open>
  A field group as the classifier meets it: its chip, the adapter of the chip, its
  field-group id and its raw fields. \<open>visible_groups\<close> lists the groups of the visible
  sensors of the visible chips in the order of the raw tree, which is the order of
  discovery.
\<close>

record 'v field_group =
  group_chip :: string
  group_adapter :: "string option"
  group_sensor :: string
  group_fields :: "'v fields"

definition entry_visible :: "source_file \<Rightarrow> config \<Rightarrow> string \<Rightarrow> string \<times> 'v entry \<Rightarrow> bool" where
  "entry_visible f c chip se =
     (case snd se of Mapping _ \<Rightarrow> is_sensoer_visible f c chip (fst se) | Other _ \<Rightarrow> False)"

definition entry_groups ::
  "source_file \<Rightarrow> config \<Rightarrow> string \<Rightarrow> string option \<Rightarrow> string \<times> 'v entry \<Rightarrow> 'v field_group list" where
  "entry_groups f c chip ad se =
     (case snd se of
        Other _ \<Rightarrow> []
      | Mapping fs \<Rightarrow>
          if is_sensoer_visible f c chip (fst se)
          then [\<lparr>group_chip = chip, group_adapter = ad, group_sensor = fst se, group_fields = fs\<rparr>]
          else [])"

definition chip_shown :: "source_file \<Rightarrow> config \<Rightarrow> string \<Rightarrow> bool" where
  "chip_shown f c chip = (case is_chip_visible f c chip of Inr v \<Rightarrow> truthy v | Inl _ \<Rightarrow> False)"

definition chip_groups ::
  "source_file \<Rightarrow> ('v fields \<Rightarrow> string) \<Rightarrow> config \<Rightarrow> string \<times> 'v chip_data \<Rightarrow> 'v field_group list" where
  "chip_groups f ds c cc =
     (if chip_shown f c (fst cc)
      then concat (map (entry_groups f c (fst cc) (get_adapter ds (snd cc))) (snd cc))
      else [])"

definition visible_groups ::
  "source_file \<Rightarrow> ('v fields \<Rightarrow> string) \<Rightarrow> config \<Rightarrow> 'v sensors_json \<Rightarrow> 'v field_group list" where
  "visible_groups f ds c tree = concat (map (chip_groups f ds c) tree)"

text \<open>The first error that asking for the visibility of the chips raises, if any does.\<close>

fun visibility_error :: "source_file \<Rightarrow> config \<Rightarrow> string list \<Rightarrow> error option" where
  "visibility_error f c [] = None"
| "visibility_error f c (chip # chips) =
     (case is_chip_visible f c chip of
        Inl e \<Rightarrow> Some e
      | Inr _ \<Rightarrow> visibility_error f c chips)"

definition group_contributes :: "category \<Rightarrow> source_file \<Rightarrow> 'v field_group \<Rightarrow> bool" where
  "group_contributes cat f g = contributes cat f (group_chip g) (group_fields g)"

text \<open>The groups that contribute to a category, in the order of discovery.\<close>

definition discovered :: "category \<Rightarrow> source_file \<Rightarrow> 'v field_group list \<Rightarrow> 'v field_group list" where
  "discovered cat f gs = filter (group_contributes cat f) gs"

definition merged_temp :: "source_file \<Rightarrow> config \<Rightarrow> 'v field_group \<Rightarrow> 'v Temp" where
  "merged_temp f c g =
     merge Temperature f (group_chip g) assign_temp
       (new_Temp f c (group_chip g) (group_sensor g) (group_adapter g)) (group_fields g)"

definition merged_hdd_temp :: "source_file \<Rightarrow> config \<Rightarrow> 'v field_group \<Rightarrow> 'v HddTemp" where
  "merged_hdd_temp f c g =
     merge DriveTemperature f (group_chip g) assign_hdd_temp
       (new_HddTemp f c (group_chip g) (group_sensor g) (group_adapter g)) (group_fields g)"

definition merged_fan :: "source_file \<Rightarrow> config \<Rightarrow> 'v field_group \<Rightarrow> 'v FanSpeed" where
  "merged_fan f c g =
     merge Fan f (group_chip g) assign_fan
       (new_FanSpeed f c (group_chip g) (group_sensor g) (group_adapter g)) (group_fields g)"

definition merged_volt :: "source_file \<Rightarrow> config \<Rightarrow> 'v field_group \<Rightarrow> 'v Voltage" where
  "merged_volt f c g =
     merge Voltage f (group_chip g) assign_volt
       (new_Voltage f c (group_chip g) (group_sensor g) (group_adapter g)) (group_fields g)"

text \<open>The output with the records of a list of groups appended, category by category.\<close>

definition extend_output ::
  "source_file \<Rightarrow> config \<Rightarrow> 'v SensorsData \<Rightarrow> 'v field_group list \<Rightarrow> 'v SensorsData" where
  "extend_output f c output gs =
     output\<lparr>temps := temps output @ map (merged_temp f c) (discovered Temperature f gs),
            hdd_temps := hdd_temps output @ map (merged_hdd_temp f c) (discovered DriveTemperature f gs),
            volts := volts output @ map (merged_volt f c) (discovered Voltage f gs),
            fans := fans output @ map (merged_fan f c) (discovered Fan f gs)\<rparr>"

subsection \<open>Keys\<close>

text \<open>
  A raw tree that a Python dictionary can be: no chip id twice, and in a chip no
  field-group id twice.
\<close>

definition py_dict :: "'v sensors_json \<Rightarrow> bool" where
  "py_dict tree = (distinct (map fst tree) \<and> list_all (\<lambda>cc. distinct (map fst (snd cc))) tree)"

definition record_key :: "'a Sensoer_scheme \<Rightarrow> string \<times> string" where
  "record_key r = (chip_id r, sensor_id r)"

definition group_key :: "'v field_group \<Rightarrow> string \<times> string" where
  "group_key g = (group_chip g, group_sensor g)"

text \<open>The distinct visible (chip id, sensor id) pairs that contribute fields to a category.\<close>

definition contributing_pairs ::
  "category \<Rightarrow> source_file \<Rightarrow> ('v fields \<Rightarrow> string) \<Rightarrow> config \<Rightarrow> 'v sensors_json \<Rightarrow>
   (string \<times> string) set" where
  "contributing_pairs cat f ds c tree =
     set (map group_key (discovered cat f (visible_groups f ds c tree)))"

subsection \<open>Entries that are no mappings\<close>

fun is_mapping :: "'v entry \<Rightarrow> bool" where
  "is_mapping (Mapping _) = True"
| "is_mapping (Other _) = False"

text \<open>
  The raw tree as if the entry \<open>k\<close> of a chip were absent, for an entry that is no
  mapping; a mapping stays.
\<close>

definition kept :: "string \<Rightarrow> string \<times> 'v entry \<Rightarrow> bool" where
  "kept k se = (fst se \<noteq> k \<or> is_mapping (snd se))"

definition drop_entry :: "string \<Rightarrow> string \<Rightarrow> 'v sensors_json \<Rightarrow> 'v sensors_json" where
  "drop_entry chip k tree =
     map (\<lambda>cc. if fst cc = chip then (fst cc, filter (kept k) (snd cc)) else cc) tree"





section \<open>Examples\<close>





definition nvme_tree :: "real sensors_json" where
  "nvme_tree =
     [(''nvme-pci-0100'',
       [(''Adapter'', Other ''PCI adapter''),
        (''Composite'', Mapping [(''temp1_input'', 38.85), (''temp1_max'', 81.85)])])]"

definition drivetemp_tree :: "real sensors_json" where
  "drivetemp_tree = [(''drivetemp-scsi-0-0'', [(''temp1'', Mapping [(''temp1_input'', 38)])])]"

definition three_chip_tree :: "real sensors_json" where
  "three_chip_tree =
     [(''nct6775-isa-0290'',
       [(''Adapter'', Other ''ISA adapter''),
        (''SYSTIN'', Mapping [(''temp1_input'', 30)])]),
      (''k10temp-pci-00c3'',
       [(''Tctl'', Mapping [(''temp1_input'', 50.5)])]),
      (''coretemp-isa-0000'',
       [(''Core 0'', Mapping [(''temp2_input'', 45), (''temp2_max'', 90)])])]"

definition alarm_tree :: "real sensors_json" where
  "alarm_tree =
     [(''coretemp-isa-0000'',
       [(''Package id 0'', Mapping [(''temp1_alarm'', 0)]),
        (''Core 0'', Mapping [(''temp2_input'', 45)])])]"


definition no_dict_str :: "real fields \<Rightarrow> string" where
  "no_dict_str m = ''{...}''"

section \<open>The configuration resolver\<close>

lemma getitem_present:
  "contains c s \<Longrightarrow> has_option c s k \<Longrightarrow> \<exists>v. getitem c s k = Inr v"
  by (auto simp: getitem_def has_option_def contains_def split: option.splits if_splits)

lemma configured_iff:
  "configured c s k = Some v \<longleftrightarrow> contains c s \<and> has_option c s k \<and> getitem c s k = Inr v"
  using getitem_present[of c s k]
  by (auto simp: configured_def split: sum.splits)

lemma configured_None:
  "configured c s k = None \<longleftrightarrow> \<not> (contains c s \<and> has_option c s k)"
  using getitem_present[of c s k]
  by (auto simp: configured_def split: sum.splits)

lemma py_int_error: "py_int v = Inl e \<Longrightarrow> e = ValueError"
  by (auto simp: py_int_def split: option.splits)

lemma py_float_error: "py_float v = Inl e \<Longrightarrow> e = ValueError"
  by (auto simp: py_float_def split: option.splits)

lemma convert_to_boolean_error: "convert_to_boolean v = Inl e \<Longrightarrow> e = ValueError"
  by (auto simp: convert_to_boolean_def split: if_splits)

lemma get_config_value_cases:
  assumes "vt \<noteq> Other_type"
  shows "get_config_value c section key vt d =
     (if section = [] \<or> key = [] then Inr d
      else case configured c section key of
             None \<Rightarrow> Inr d
           | Some v \<Rightarrow> (case parse_as vt v of Some x \<Rightarrow> Inr x | None \<Rightarrow> Inl ValueError))"
proof (cases "section = [] \<or> key = []")
  case True
  then show ?thesis
    by (auto simp: get_config_value_def)
next
  case ne: False
  show ?thesis
  proof (cases "configured c section key")
    case None
    then have "\<not> (contains c section \<and> has_option c section key)"
      by (simp add: configured_None)
    then show ?thesis
      using ne by (auto simp: get_config_value_def None)
  next
    case (Some v)
    then have "contains c section" "has_option c section key" "getitem c section key = Inr v"
      by (simp_all add: configured_iff)
    then show ?thesis
      using ne Some assms
      by (cases vt)
         (auto simp: get_config_value_def parse_as_def getint_def getfloat_def getboolean_def
               split: sum.splits dest: py_int_error py_float_error convert_to_boolean_error)
  qed
qed

text \<open>A lookup of kind \<^verbatim>\<open>str\<close> returns a string and never raises.\<close>

lemma get_config_value_str:
  "get_config_value c s k Str_type (VStr d) =
     Inr (VStr (if s = [] \<or> k = [] then d else case configured c s k of None \<Rightarrow> d | Some v \<Rightarrow> v))"
  by (simp add: get_config_value_cases parse_as_def split: option.splits)





section \<open>Sensor visibility\<close>






text \<open>
  The sensor whose id is the empty string is left out of C6 above: the one piece of the
  split of an empty value is the empty string, so sm.py hides that sensor on every chip.
\<close>

lemma empty_sensor_id_hidden:
  "\<not> is_sensoer_visible Sm_py empty_config chip []"
  by (simp add: is_sensoer_visible_def get_config_value_str configured_def empty_config_def
      contains_def has_section_def has_option_def default_section_def)

section \<open>Chip ordering\<close>

text \<open>
  The script has the four rules in the order of the specification, and the rank of a chip
  that matches none is below \<^verbatim>\<open>sys.maxsize\<close> and above the rank of every rule.
\<close>

lemma get_chip_order_script:
  "get_chip_order Sensors_monitor_py chip =
     (if prefix ''coretemp-'' chip then 1
      else if prefix ''drivetemp-'' chip then 2
      else if prefix ''nvme-'' chip then 3
      else if prefix ''acpitz-'' chip then 4
      else maxsize - 1)"
  by (simp add: get_chip_order_def chip_sort_order_def)

lemma get_chip_order_module:
  "get_chip_order Sm_py chip =
     (if prefix ''coretemp-'' chip then 1
      else if prefix ''drivetemp-'' chip then 2
      else if prefix ''acpitz-'' chip then 3
      else maxsize - 1)"
  by (simp add: get_chip_order_def chip_sort_order_def)

lemma sentinel_rank: "maxsize - 1 < maxsize" "4 < maxsize - 1"
  by (simp_all add: maxsize_def)

text \<open>
  C3 on sm.py: its rule list has no rule for NVMe chips, so an NVMe chip gets the rank of
  the chips that match no rule and comes after the ACPI thermal zones; the script ranks it
  third, before them.
\<close>

theorem nvme_chip_order:
  "get_chip_order Sm_py ''nvme-pci-0100'' = maxsize - 1 \<and>
   get_chip_order Sm_py ''acpitz-acpi-0'' = 3 \<and>
   get_chip_order Sensors_monitor_py ''nvme-pci-0100'' = 3 \<and>
   get_chip_order Sensors_monitor_py ''acpitz-acpi-0'' = 4"
  by (simp add: get_chip_order_def chip_sort_order_def)

section \<open>Presentation rules\<close>



text \<open>The two scenarios of the specification.\<close>

lemma get_colored_temp_scenarios:
  "tier_of (get_colored_temp (Some 45) (Some 90)) = Some Normal"
  "tier_of (get_colored_temp (Some 80) (Some 90)) = Some Critical"
  by (simp_all add: get_colored_temp_def)

text \<open>
  C8, as the code has it. A record with no value displays nothing. Otherwise the tier is
  warning below \<open>min\<close>, critical above \<open>max\<close> and normal between, where a missing
  \<open>min\<close> is taken to be \<open>- 2 ^ 63\<close> and a missing \<open>max\<close> to be \<open>2 ^ 63 - 1\<close>: with
  no bounds a value from \<open>- 2 ^ 63\<close> to \<open>2 ^ 63 - 1\<close> is in the normal tier.
\<close>

theorem get_colored_voltage_tiers:
  "tier_of (get_colored_voltage None lo hi) = None \<and>
   tier_of (get_colored_voltage (Some v) lo hi) =
     Some (if v < (case lo of None \<Rightarrow> - (2 ^ 63) | Some m \<Rightarrow> m) then Warning
           else if v > (case hi of None \<Rightarrow> 2 ^ 63 - 1 | Some m \<Rightarrow> m) then Critical
           else Normal) \<and>
   voltage_current r = get_colored_voltage (volt_value r) (volt_min r) (volt_max r)"
  by (simp add: get_colored_voltage_def maxsize_def voltage_current_def split: option.splits)

text \<open>
  C8 as stated fails where it says that a value with no bounds is normal whatever its
  magnitude: the value \<open>10 ^ 19\<close> with no bounds is in the critical tier.
\<close>

theorem get_colored_voltage_no_bounds_critical:
  "tier_of (get_colored_voltage (Some (10 ^ 19)) None None) = Some Critical"
  by (simp add: get_colored_voltage_def maxsize_def)

lemma get_colored_voltage_scenario:
  "tier_of (get_colored_voltage (Some 3.3) None None) = Some Normal"
  by (simp add: get_colored_voltage_def maxsize_def)

section \<open>The classifier as a function of the visible groups\<close>

subsection \<open>One raw field\<close>

lemma setdefault_set_Nil [simp]: "setdefault_set [] k new a = [(k, a new)]"
  by (simp add: setdefault_set_def)

lemma setdefault_set_single [simp]: "setdefault_set [(k, r)] k new a = [(k, a r)]"
  by (simp add: setdefault_set_def)

text \<open>
  A raw field changes the dictionary of the category it goes to, and no other; a field
  that goes nowhere changes none.
\<close>

lemma classify_field_temps:
  "d_temps (classify_field f c chip sensor ad g nv) =
     (if routes_to f chip (fst nv) = Some Temperature
      then setdefault_set (d_temps g) sensor (new_Temp f c chip sensor ad) (\<lambda>r. assign_temp r nv)
      else d_temps g)"
  by (simp add: classify_field_def routes_to_def ends_with_any_def assign_temp_def Let_def)

lemma classify_field_hdd_temps:
  "d_hdd_temps (classify_field f c chip sensor ad g nv) =
     (if routes_to f chip (fst nv) = Some DriveTemperature
      then setdefault_set (d_hdd_temps g) sensor (new_HddTemp f c chip sensor ad)
             (\<lambda>r. assign_hdd_temp r nv)
      else d_hdd_temps g)"
  by (simp add: classify_field_def routes_to_def ends_with_any_def assign_hdd_temp_def Let_def)

lemma classify_field_fans:
  "d_fans (classify_field f c chip sensor ad g nv) =
     (if routes_to f chip (fst nv) = Some Fan
      then setdefault_set (d_fans g) sensor (new_FanSpeed f c chip sensor ad) (\<lambda>r. assign_fan r nv)
      else d_fans g)"
  by (simp add: classify_field_def routes_to_def ends_with_any_def assign_fan_def Let_def)

lemma classify_field_volts:
  "d_volts (classify_field f c chip sensor ad g nv) =
     (if routes_to f chip (fst nv) = Some Voltage
      then setdefault_set (d_volts g) sensor (new_Voltage f c chip sensor ad) (\<lambda>r. assign_volt r nv)
      else d_volts g)"
  by (simp add: classify_field_def routes_to_def ends_with_any_def assign_volt_def Let_def)

text \<open>
  Where a field whose name starts with \<^verbatim>\<open>temp\<close> goes: to the drives' temperatures on a
  drive chip, to the generic ones elsewhere, if its suffix is recognized. In sm.py the
  drive chips are those whose id starts with \<^verbatim>\<open>drivetemp\<close> or \<^verbatim>\<open>nvme\<close>.
\<close>

lemma routes_to_temp:
  assumes "prefix ''temp'' name"
  shows "routes_to f chip name = None \<or>
         routes_to f chip name = Some (if is_drive f chip then DriveTemperature else Temperature)"
  using assms by (simp add: routes_to_def)

lemma is_drive_module:
  "is_drive Sm_py chip \<longleftrightarrow> prefix ''drivetemp'' chip \<or> prefix ''nvme'' chip"
  by (simp add: is_drive_def)

lemma is_drive_script:
  "is_drive Sensors_monitor_py chip \<longleftrightarrow> prefix ''drivetemp'' chip"
  by (simp add: is_drive_def)

subsection \<open>One field group\<close>

lemma foldl_unrouted:
  "\<not> list_ex R xs \<Longrightarrow> foldl (\<lambda>r x. if R x then A r x else r) new xs = new"
  by (induction xs) auto

lemma foldl_setdefault:
  assumes step: "\<And>g x. p (F g x) = (if R x then setdefault_set (p g) k new (\<lambda>r. A r x) else p g)"
    and init: "p g0 = []"
  shows "p (foldl F g0 xs) =
     (if list_ex R xs then [(k, foldl (\<lambda>r x. if R x then A r x else r) new xs)] else [])"
proof (induction xs rule: rev_induct)
  case Nil
  show ?case by (simp add: init)
next
  case (snoc x xs)
  show ?case
  proof (cases "R x")
    case False
    then show ?thesis
      using snoc by (simp add: step)
  next
    case True
    show ?thesis
    proof (cases "list_ex R xs")
      case True
      with \<open>R x\<close> snoc show ?thesis by (simp add: step)
    next
      case False
      with \<open>R x\<close> snoc foldl_unrouted[OF False, of A new] show ?thesis
        by (simp add: step)
    qed
  qed
qed

lemma classify_group_temps:
  "d_temps (classify_group f c chip sensor ad fs) =
     (if contributes Temperature f chip fs
      then [(sensor, merge Temperature f chip assign_temp (new_Temp f c chip sensor ad) fs)]
      else [])"
  unfolding classify_group_def contributes_def merge_def
  by (rule foldl_setdefault) (simp_all add: classify_field_temps empty_dicts_def)

lemma classify_group_hdd_temps:
  "d_hdd_temps (classify_group f c chip sensor ad fs) =
     (if contributes DriveTemperature f chip fs
      then [(sensor, merge DriveTemperature f chip assign_hdd_temp
                       (new_HddTemp f c chip sensor ad) fs)]
      else [])"
  unfolding classify_group_def contributes_def merge_def
  by (rule foldl_setdefault) (simp_all add: classify_field_hdd_temps empty_dicts_def)

lemma classify_group_fans:
  "d_fans (classify_group f c chip sensor ad fs) =
     (if contributes Fan f chip fs
      then [(sensor, merge Fan f chip assign_fan (new_FanSpeed f c chip sensor ad) fs)]
      else [])"
  unfolding classify_group_def contributes_def merge_def
  by (rule foldl_setdefault) (simp_all add: classify_field_fans empty_dicts_def)

lemma classify_group_volts:
  "d_volts (classify_group f c chip sensor ad fs) =
     (if contributes Voltage f chip fs
      then [(sensor, merge Voltage f chip assign_volt (new_Voltage f c chip sensor ad) fs)]
      else [])"
  unfolding classify_group_def contributes_def merge_def
  by (rule foldl_setdefault) (simp_all add: classify_field_volts empty_dicts_def)

lemmas classify_group_dicts =
  classify_group_temps classify_group_hdd_temps classify_group_fans classify_group_volts

subsection \<open>The loops over the entries and the chips\<close>

lemma extend_Nil [simp]: "extend_output f c out [] = out"
  by (simp add: extend_output_def discovered_def)

lemma extend_append:
  "extend_output f c (extend_output f c out gs) hs = extend_output f c out (gs @ hs)"
  by (simp add: extend_output_def discovered_def)

lemma classify_entry_extend:
  "classify_entry f c chip ad out se = extend_output f c out (entry_groups f c chip ad se)"
proof (cases "snd se")
  case (Other s)
  then show ?thesis
    by (simp add: classify_entry_def entry_groups_def)
next
  case (Mapping fs)
  then show ?thesis
    by (simp add: classify_entry_def entry_groups_def extend_output_def discovered_def Let_def
        classify_group_dicts group_contributes_def merged_temp_def merged_hdd_temp_def
        merged_fan_def merged_volt_def)
qed

lemma foldl_classify_entry:
  "foldl (classify_entry f c chip ad) out cd =
     extend_output f c out (concat (map (entry_groups f c chip ad) cd))"
  by (induction cd arbitrary: out) (simp_all add: classify_entry_extend extend_append)

lemma classify_chips_eq:
  "classify_chips f ds c out tree =
     (case visibility_error f c (map fst tree) of
        Some e \<Rightarrow> Inl e
      | None \<Rightarrow> Inr (extend_output f c out (visible_groups f ds c tree)))"
proof (induction tree arbitrary: out)
  case Nil
  show ?case by (simp add: visible_groups_def)
next
  case (Cons cc tree)
  obtain chip cd where cc: "cc = (chip, cd)" by (cases cc)
  show ?case
  proof (cases "is_chip_visible f c chip")
    case (Inl e)
    then show ?thesis by (simp add: cc)
  next
    case (Inr v)
    then show ?thesis
      using Cons.IH
      by (simp add: cc visible_groups_def chip_groups_def chip_shown_def foldl_classify_entry
          extend_append split: option.splits)
  qed
qed

text \<open>
  The classifier raises when asking for the visibility of a chip raises; otherwise its
  snapshot holds, for each category, the merged records of the visible groups that
  contribute to it, sorted by rank.
\<close>

lemma parse_sensors_json_eq:
  "parse_sensors_json f ds c tree =
     (case visibility_error f c (map fst tree) of
        Some e \<Rightarrow> Inl e
      | None \<Rightarrow> Inr (sort_output (extend_output f c (new_SensorsData tree)
                                     (visible_groups f ds c tree))))"
  by (simp add: parse_sensors_json_def classify_chips_eq split: option.splits)

lemma parse_Inr_iff:
  "parse_sensors_json f ds c tree = Inr out \<longleftrightarrow>
     visibility_error f c (map fst tree) = None \<and>
     out = sort_output (extend_output f c (new_SensorsData tree) (visible_groups f ds c tree))"
  by (auto simp: parse_sensors_json_eq split: option.splits)

lemma sort_output_fields:
  "temps (sort_output out) = sort_key chip_order (temps out)"
  "hdd_temps (sort_output out) = sort_key chip_order (hdd_temps out)"
  "volts (sort_output out) = sort_key chip_order (volts out)"
  "fans (sort_output out) = sort_key chip_order (fans out)"
  "raw_data (sort_output out) = raw_data out"
  by (simp_all add: sort_output_def)

lemma extend_output_new:
  "temps (extend_output f c (new_SensorsData t) gs) =
     map (merged_temp f c) (discovered Temperature f gs)"
  "hdd_temps (extend_output f c (new_SensorsData t) gs) =
     map (merged_hdd_temp f c) (discovered DriveTemperature f gs)"
  "volts (extend_output f c (new_SensorsData t) gs) =
     map (merged_volt f c) (discovered Voltage f gs)"
  "fans (extend_output f c (new_SensorsData t) gs) =
     map (merged_fan f c) (discovered Fan f gs)"
  "raw_data (extend_output f c (new_SensorsData t) gs) = t"
  by (simp_all add: extend_output_def new_SensorsData_def)

lemma parse_sequences:
  assumes "parse_sensors_json f ds c tree = Inr out"
  shows "temps out = sort_key chip_order
           (map (merged_temp f c) (discovered Temperature f (visible_groups f ds c tree)))"
    and "hdd_temps out = sort_key chip_order
           (map (merged_hdd_temp f c) (discovered DriveTemperature f (visible_groups f ds c tree)))"
    and "volts out = sort_key chip_order
           (map (merged_volt f c) (discovered Voltage f (visible_groups f ds c tree)))"
    and "fans out = sort_key chip_order
           (map (merged_fan f c) (discovered Fan f (visible_groups f ds c tree)))"
    and "raw_data out = tree"
  using assms by (simp_all add: parse_Inr_iff sort_output_fields extend_output_new)

lemma visibility_error_empty_config:
  "visibility_error f empty_config chips = None"
  by (induction chips; cases f)
     (simp_all add: is_chip_visible_def get_config_value_def empty_config_def contains_def
        has_option_def has_section_def)

section \<open>Routing of NVMe temperatures\<close>

text \<open>
  C2 on sensors-monitor.py: the script takes only the ids starting with \<^verbatim>\<open>drivetemp\<close>
  for drives, so the temperature of an NVMe chip becomes a generic temperature record
  and no drive-temperature record; sm.py makes it a drive-temperature record.
\<close>

theorem nvme_temperature_routing:
  "(case parse_sensors_json Sensors_monitor_py no_dict_str empty_config nvme_tree of
      Inl _ \<Rightarrow> False
    | Inr out \<Rightarrow> map chip_id (temps out) = [''nvme-pci-0100''] \<and> hdd_temps out = []) \<and>
   (case parse_sensors_json Sm_py no_dict_str empty_config nvme_tree of
      Inl _ \<Rightarrow> False
    | Inr out \<Rightarrow> map chip_id (hdd_temps out) = [''nvme-pci-0100''] \<and> temps out = [])"
  by code_simp

text \<open>
  The scenario of the specification holds in both files: the temperature of the chip
  \<^verbatim>\<open>drivetemp-scsi-0-0\<close> becomes a drive-temperature record and no generic one.
\<close>

lemma drivetemp_scenario:
  "(case parse_sensors_json Sm_py no_dict_str empty_config drivetemp_tree of
      Inl _ \<Rightarrow> False
    | Inr out \<Rightarrow> map record_key (hdd_temps out) = [(''drivetemp-scsi-0-0'', ''temp1'')] \<and>
                 temps out = [])"
  "(case parse_sensors_json Sensors_monitor_py no_dict_str empty_config drivetemp_tree of
      Inl _ \<Rightarrow> False
    | Inr out \<Rightarrow> map record_key (hdd_temps out) = [(''drivetemp-scsi-0-0'', ''temp1'')] \<and>
                 temps out = [])"
  by code_simp+

section \<open>Sorting\<close>

text \<open>
  C5. When the classifier returns a snapshot, each of its four sequences is sorted by
  \<open>chip_order\<close> ascending, and the sort is stable: for every rank, the records of
  that rank are in the sequence as they are in the order of discovery, which is the
  order of the chips (and in a chip of its field groups) in the raw tree. The snapshot
  is a function of the input, so a repeated run gives the same.
\<close>

theorem sequences_sorted_stable:
  assumes "parse_sensors_json f ds c tree = Inr out"
  shows "sorted (map chip_order (temps out)) \<and>
         sorted (map chip_order (hdd_temps out)) \<and>
         sorted (map chip_order (volts out)) \<and>
         sorted (map chip_order (fans out)) \<and>
         filter (\<lambda>r. chip_order r = k) (temps out) =
           filter (\<lambda>r. chip_order r = k)
             (map (merged_temp f c) (discovered Temperature f (visible_groups f ds c tree))) \<and>
         filter (\<lambda>r. chip_order r = k) (hdd_temps out) =
           filter (\<lambda>r. chip_order r = k)
             (map (merged_hdd_temp f c)
                (discovered DriveTemperature f (visible_groups f ds c tree))) \<and>
         filter (\<lambda>r. chip_order r = k) (volts out) =
           filter (\<lambda>r. chip_order r = k)
             (map (merged_volt f c) (discovered Voltage f (visible_groups f ds c tree))) \<and>
         filter (\<lambda>r. chip_order r = k) (fans out) =
           filter (\<lambda>r. chip_order r = k)
             (map (merged_fan f c) (discovered Fan f (visible_groups f ds c tree)))"
  by (simp add: parse_sequences[OF assms] sort_key_stable)

theorem sequences_sorted_stable_witness:
  "\<exists>out. parse_sensors_json Sm_py no_dict_str empty_config three_chip_tree = Inr out \<and>
     map chip_id (temps out) = [''coretemp-isa-0000'', ''nct6775-isa-0290'', ''k10temp-pci-00c3''] \<and>
     sorted (map chip_order (temps out)) \<and>
     filter (\<lambda>r. chip_order r = maxsize - 1) (temps out) =
       filter (\<lambda>r. chip_order r = maxsize - 1)
         (map (merged_temp Sm_py empty_config)
            (discovered Temperature Sm_py
               (visible_groups Sm_py no_dict_str empty_config three_chip_tree)))"
proof -
  define out where "out = projr (parse_sensors_json Sm_py no_dict_str empty_config three_chip_tree)"
  have h: "parse_sensors_json Sm_py no_dict_str empty_config three_chip_tree = Inr out"
    unfolding out_def by (simp add: parse_sensors_json_eq visibility_error_empty_config)
  have ids: "map chip_id (temps out) =
      [''coretemp-isa-0000'', ''nct6775-isa-0290'', ''k10temp-pci-00c3'']"
    unfolding out_def by code_simp
  note t = sequences_sorted_stable[OF h, where k = "maxsize - 1"]
  show ?thesis
    by (rule exI[of _ out])
       (intro conjI h ids t[THEN conjunct1]
          t[THEN conjunct2, THEN conjunct2, THEN conjunct2, THEN conjunct2, THEN conjunct1])
qed

section \<open>One record for a sensor\<close>

lemma merge_preserves:
  assumes "\<And>r nv. p (assign r nv) = p r"
  shows "p (merge cat f chip assign new fs) = p new"
  unfolding merge_def by (induction fs rule: rev_induct) (simp_all add: assms)

lemma record_key_merge_temp:
  "record_key (merge cat f chip assign_temp new fs) = record_key new"
  by (rule merge_preserves) (simp add: assign_temp_def record_key_def)

lemma record_key_merge_hdd_temp:
  "record_key (merge cat f chip assign_hdd_temp new fs) = record_key new"
  by (rule merge_preserves) (simp add: assign_hdd_temp_def record_key_def)

lemma record_key_merge_fan:
  "record_key (merge cat f chip assign_fan new fs) = record_key new"
  by (rule merge_preserves) (simp add: assign_fan_def record_key_def)

lemma record_key_merge_volt:
  "record_key (merge cat f chip assign_volt new fs) = record_key new"
  by (rule merge_preserves) (simp add: assign_volt_def record_key_def)

lemma record_key_new:
  "record_key (new_Temp f c chip sensor ad) = (chip, sensor)"
  "record_key (new_HddTemp f c chip sensor ad) = (chip, sensor)"
  "record_key (new_FanSpeed f c chip sensor ad) = (chip, sensor)"
  "record_key (new_Voltage f c chip sensor ad) = (chip, sensor)"
  by (simp_all add: record_key_def new_Temp_def new_HddTemp_def new_FanSpeed_def new_Voltage_def)

lemma record_key_merged:
  "record_key (merged_temp f c g) = group_key g"
  "record_key (merged_hdd_temp f c g) = group_key g"
  "record_key (merged_fan f c g) = group_key g"
  "record_key (merged_volt f c g) = group_key g"
  by (simp_all add: merged_temp_def merged_hdd_temp_def merged_fan_def merged_volt_def
      record_key_merge_temp record_key_merge_hdd_temp record_key_merge_fan record_key_merge_volt
      record_key_new group_key_def)

lemma keys_of_merged:
  "map record_key (map (merged_temp f c) gs) = map group_key gs"
  "map record_key (map (merged_hdd_temp f c) gs) = map group_key gs"
  "map record_key (map (merged_volt f c) gs) = map group_key gs"
  "map record_key (map (merged_fan f c) gs) = map group_key gs"
  by (simp_all add: record_key_merged)

text \<open>Where a visible group comes from in the raw tree.\<close>

lemma visible_groups_member:
  "g \<in> set (visible_groups f ds c tree) \<longleftrightarrow>
     (\<exists>cd. (group_chip g, cd) \<in> set tree \<and> chip_shown f c (group_chip g) \<and>
           (group_sensor g, Mapping (group_fields g)) \<in> set cd \<and>
           is_sensoer_visible f c (group_chip g) (group_sensor g) \<and>
           group_adapter g = get_adapter ds cd)"
  (is "?L \<longleftrightarrow> ?R")
proof
  assume ?L
  then obtain cc se where cc: "cc \<in> set tree" "chip_shown f c (fst cc)"
      and se: "se \<in> set (snd cc)" "g \<in> set (entry_groups f c (fst cc) (get_adapter ds (snd cc)) se)"
    by (auto simp: visible_groups_def chip_groups_def split: if_splits)
  from se(2) have g: "snd se = Mapping (group_fields g)" "is_sensoer_visible f c (fst cc) (fst se)"
      "group_chip g = fst cc" "group_sensor g = fst se" "group_adapter g = get_adapter ds (snd cc)"
    by (cases "snd se"; simp add: entry_groups_def split: if_splits)+
  have "(group_chip g, snd cc) \<in> set tree"
    using cc(1) g(3) by simp
  moreover have "(group_sensor g, Mapping (group_fields g)) \<in> set (snd cc)"
    using se(1) g(1,4) by (metis prod.collapse)
  ultimately show ?R
    using cc(2) g by (intro exI[of _ "snd cc"]) simp
next
  assume ?R
  then obtain cd where cd: "(group_chip g, cd) \<in> set tree" "chip_shown f c (group_chip g)"
      "(group_sensor g, Mapping (group_fields g)) \<in> set cd"
      "is_sensoer_visible f c (group_chip g) (group_sensor g)" "group_adapter g = get_adapter ds cd"
    by blast
  have "g \<in> set (entry_groups f c (group_chip g) (get_adapter ds cd)
                   (group_sensor g, Mapping (group_fields g)))"
    using cd(4,5) by (simp add: entry_groups_def)
  then have "g \<in> set (chip_groups f ds c (group_chip g, cd))"
    using cd(2,3) by (auto simp: chip_groups_def)
  then show ?L
    using cd(1) by (auto simp: visible_groups_def)
qed

lemma entry_groups_sensors:
  "map group_sensor (concat (map (entry_groups f c chip ad) cd)) =
     map fst (filter (entry_visible f c chip) cd)"
proof (induction cd)
  case Nil
  show ?case by simp
next
  case (Cons se cd)
  then show ?case
    by (cases "snd se") (simp_all add: entry_groups_def entry_visible_def)
qed

lemma distinct_entry_groups:
  "distinct (map fst cd) \<Longrightarrow>
     distinct (map group_sensor (concat (map (entry_groups f c chip ad) cd)))"
  by (simp add: entry_groups_sensors distinct_map_filter)

lemma chip_groups_chip:
  assumes "g \<in> set (chip_groups f ds c cc)"
  shows "group_chip g = fst cc"
proof -
  from assms obtain se where "g \<in> set (entry_groups f c (fst cc) (get_adapter ds (snd cc)) se)"
    by (auto simp: chip_groups_def split: if_splits)
  then show ?thesis
    by (cases "snd se") (auto simp: entry_groups_def split: if_splits)
qed

lemma distinct_map_outer: "distinct (map g (map f xs)) \<Longrightarrow> distinct (map f xs)"
  by (induction xs) auto

lemma distinct_chip_groups:
  assumes "distinct (map fst (snd cc))"
  shows "distinct (map group_key (chip_groups f ds c cc))"
proof -
  have "distinct (map group_sensor (chip_groups f ds c cc))"
    using distinct_entry_groups[OF assms] by (simp add: chip_groups_def)
  moreover have "map group_sensor gs = map snd (map group_key gs)" for gs :: "'a field_group list"
    by (simp add: group_key_def)
  ultimately have "distinct (map snd (map group_key (chip_groups f ds c cc)))"
    by simp
  then show ?thesis
    by (rule distinct_map_outer)
qed

lemma visible_groups_chip:
  assumes "g \<in> set (visible_groups f ds c tree)"
  shows "group_chip g \<in> fst ` set tree"
proof -
  from assms obtain cc where cc: "cc \<in> set tree" "g \<in> set (chip_groups f ds c cc)"
    by (auto simp: visible_groups_def)
  have "group_chip g = fst cc"
    using cc(2) by (rule chip_groups_chip)
  then show ?thesis
    using cc(1) by simp
qed

lemma distinct_visible_groups:
  assumes "py_dict tree"
  shows "distinct (map group_key (visible_groups f ds c tree))"
  using assms
proof (induction tree)
  case Nil
  show ?case by (simp add: visible_groups_def)
next
  case (Cons cc tree)
  then have d: "distinct (map fst (snd cc))" and notin: "fst cc \<notin> fst ` set tree"
      and rest: "py_dict tree"
    by (auto simp: py_dict_def)
  have a: "distinct (map group_key (chip_groups f ds c cc))"
    by (rule distinct_chip_groups[OF d])
  have b: "distinct (map group_key (visible_groups f ds c tree))"
    using Cons.IH rest by simp
  have "group_key g \<noteq> group_key h"
    if "g \<in> set (chip_groups f ds c cc)" "h \<in> set (visible_groups f ds c tree)" for g h
  proof
    assume "group_key g = group_key h"
    then have "group_chip g = group_chip h"
      by (simp add: group_key_def)
    with chip_groups_chip[OF that(1)] visible_groups_chip[OF that(2)] notin
    show False by simp
  qed
  then have "set (map group_key (chip_groups f ds c cc)) \<inter>
             set (map group_key (visible_groups f ds c tree)) = {}"
    by fastforce
  with a b show ?case
    by (simp add: visible_groups_def)
qed

lemma distinct_discovered:
  "py_dict tree \<Longrightarrow> distinct (map group_key (discovered cat f (visible_groups f ds c tree)))"
  unfolding discovered_def by (rule distinct_map_filter) (rule distinct_visible_groups)

lemma distinct_map_sort_key:
  "distinct (map k (sort_key g xs)) = distinct (map k xs)"
  by (simp add: distinct_map)

lemma card_contributing_pairs:
  assumes "py_dict tree"
  shows "card (contributing_pairs cat f ds c tree) =
     length (discovered cat f (visible_groups f ds c tree))"
  unfolding contributing_pairs_def
  using distinct_card[OF distinct_discovered[OF assms, of cat f ds c]] by simp

text \<open>
  C4. For a raw tree that is a Python dictionary (each chip id once, and in a chip each
  field-group id once), when the classifier returns a snapshot: in each of the four
  categories no two records have the same (chip id, sensor id) pair; the number of records
  of a category is the number of distinct visible pairs that contribute fields to it; and
  the records of a category are the merged records of the contributing groups, one for a
  group, in which all raw fields of the group that go to the category are assigned to the
  record that the first of them creates.
\<close>

theorem one_record_per_sensor:
  assumes "py_dict tree" and "parse_sensors_json f ds c tree = Inr out"
  shows "distinct (map record_key (temps out)) \<and>
         distinct (map record_key (hdd_temps out)) \<and>
         distinct (map record_key (volts out)) \<and>
         distinct (map record_key (fans out)) \<and>
         length (temps out) = card (contributing_pairs Temperature f ds c tree) \<and>
         length (hdd_temps out) = card (contributing_pairs DriveTemperature f ds c tree) \<and>
         length (volts out) = card (contributing_pairs Voltage f ds c tree) \<and>
         length (fans out) = card (contributing_pairs Fan f ds c tree) \<and>
         set (temps out) =
           merged_temp f c ` set (discovered Temperature f (visible_groups f ds c tree)) \<and>
         set (hdd_temps out) =
           merged_hdd_temp f c ` set (discovered DriveTemperature f (visible_groups f ds c tree)) \<and>
         set (volts out) =
           merged_volt f c ` set (discovered Voltage f (visible_groups f ds c tree)) \<and>
         set (fans out) =
           merged_fan f c ` set (discovered Fan f (visible_groups f ds c tree))"
proof -
  note seqs = parse_sequences[OF assms(2)]
  note d = distinct_discovered[OF assms(1), of _ f ds c]
  note card = card_contributing_pairs[OF assms(1), of _ f ds c]
  have 1: "distinct (map record_key (temps out))"
    unfolding seqs distinct_map_sort_key keys_of_merged by (rule d)
  have 2: "distinct (map record_key (hdd_temps out))"
    unfolding seqs distinct_map_sort_key keys_of_merged by (rule d)
  have 3: "distinct (map record_key (volts out))"
    unfolding seqs distinct_map_sort_key keys_of_merged by (rule d)
  have 4: "distinct (map record_key (fans out))"
    unfolding seqs distinct_map_sort_key keys_of_merged by (rule d)
  have 5: "length (temps out) = card (contributing_pairs Temperature f ds c tree)"
    by (simp add: seqs(1) card)
  have 6: "length (hdd_temps out) = card (contributing_pairs DriveTemperature f ds c tree)"
    by (simp add: seqs(2) card)
  have 7: "length (volts out) = card (contributing_pairs Voltage f ds c tree)"
    by (simp add: seqs(3) card)
  have 8: "length (fans out) = card (contributing_pairs Fan f ds c tree)"
    by (simp add: seqs(4) card)
  have 9: "set (temps out) =
      merged_temp f c ` set (discovered Temperature f (visible_groups f ds c tree))"
    by (simp add: seqs(1))
  have 10: "set (hdd_temps out) =
      merged_hdd_temp f c ` set (discovered DriveTemperature f (visible_groups f ds c tree))"
    by (simp add: seqs(2))
  have 11: "set (volts out) =
      merged_volt f c ` set (discovered Voltage f (visible_groups f ds c tree))"
    by (simp add: seqs(3))
  have 12: "set (fans out) =
      merged_fan f c ` set (discovered Fan f (visible_groups f ds c tree))"
    by (simp add: seqs(4))
  from 1 2 3 4 5 6 7 8 9 10 11 12 show ?thesis
    by (intro conjI)
qed

theorem one_record_per_sensor_witness:
  "\<exists>out. py_dict three_chip_tree \<and>
     parse_sensors_json Sm_py no_dict_str empty_config three_chip_tree = Inr out \<and>
     distinct (map record_key (temps out)) \<and>
     length (temps out) = card (contributing_pairs Temperature Sm_py no_dict_str empty_config
                                  three_chip_tree) \<and>
     length (temps out) = 3 \<and>
     set (temps out) =
       merged_temp Sm_py empty_config `
         set (discovered Temperature Sm_py
                (visible_groups Sm_py no_dict_str empty_config three_chip_tree)) \<and>
     map (\<lambda>r. (sensor_id r, temp_value r, temp_high r, temp_critical r)) (temps out) =
       [(''Core 0'', Some 45, Some 90, None), (''SYSTIN'', Some 30, None, None),
        (''Tctl'', Some 50.5, None, None)]"
proof -
  define out where "out = projr (parse_sensors_json Sm_py no_dict_str empty_config three_chip_tree)"
  have d: "py_dict three_chip_tree"
    by (simp add: py_dict_def three_chip_tree_def)
  have h: "parse_sensors_json Sm_py no_dict_str empty_config three_chip_tree = Inr out"
    unfolding out_def by (simp add: parse_sensors_json_eq visibility_error_empty_config)
  have v: "map (\<lambda>r. (sensor_id r, temp_value r, temp_high r, temp_critical r)) (temps out) =
       [(''Core 0'', Some 45, Some 90, None), (''SYSTIN'', Some 30, None, None),
        (''Tctl'', Some 50.5, None, None)]"
    unfolding out_def by code_simp
  have n: "length (temps out) = 3"
    using arg_cong[OF v, of length] by simp
  note t = one_record_per_sensor[OF d h]
  show ?thesis
    by (rule exI[of _ out])
       (intro conjI d h n v t[THEN conjunct1]
          t[THEN conjunct2, THEN conjunct2, THEN conjunct2, THEN conjunct2, THEN conjunct1]
          t[THEN conjunct2, THEN conjunct2, THEN conjunct2, THEN conjunct2, THEN conjunct2,
            THEN conjunct2, THEN conjunct2, THEN conjunct2, THEN conjunct1])
qed

section \<open>Groups without a recognized field\<close>

lemma routes_to_recognized:
  "routes_to f chip name = Some cat \<Longrightarrow> recognized f chip name"
  by (auto simp: routes_to_def recognized_def split: if_splits)

lemma unrecognized_contributes:
  assumes "\<forall>nv\<in>set fs. \<not> recognized f chip (fst nv)"
  shows "\<not> contributes cat f chip fs"
  using assms by (auto simp: contributes_def list_ex_iff dest: routes_to_recognized)

lemma classify_group_unrecognized:
  assumes "\<forall>nv\<in>set fs. \<not> recognized f chip (fst nv)"
  shows "classify_group f c chip sensor ad fs = empty_dicts"
  by (rule group_dicts.equality)
     (simp_all add: classify_group_dicts unrecognized_contributes[OF assms] empty_dicts_def)

lemma record_keys_of_sequences:
  assumes "parse_sensors_json f ds c tree = Inr out"
  shows "set (map record_key (temps out)) = contributing_pairs Temperature f ds c tree"
    and "set (map record_key (hdd_temps out)) = contributing_pairs DriveTemperature f ds c tree"
    and "set (map record_key (volts out)) = contributing_pairs Voltage f ds c tree"
    and "set (map record_key (fans out)) = contributing_pairs Fan f ds c tree"
proof -
  note seqs = parse_sequences[OF assms]
  have s: "set (map k (sort_key g xs)) = set (map k xs)" for k :: "'r \<Rightarrow> string \<times> string"
      and g :: "'r \<Rightarrow> int" and xs
    by simp
  show "set (map record_key (temps out)) = contributing_pairs Temperature f ds c tree"
    unfolding seqs s keys_of_merged contributing_pairs_def ..
  show "set (map record_key (hdd_temps out)) = contributing_pairs DriveTemperature f ds c tree"
    unfolding seqs s keys_of_merged contributing_pairs_def ..
  show "set (map record_key (volts out)) = contributing_pairs Voltage f ds c tree"
    unfolding seqs s keys_of_merged contributing_pairs_def ..
  show "set (map record_key (fans out)) = contributing_pairs Fan f ds c tree"
    unfolding seqs s keys_of_merged contributing_pairs_def ..
qed

lemma unrecognized_not_contributing:
  assumes "py_dict tree" and "(chip, cd) \<in> set tree" and "(sensor, Mapping fs) \<in> set cd"
    and "\<forall>nv\<in>set fs. \<not> recognized f chip (fst nv)"
  shows "(chip, sensor) \<notin> contributing_pairs cat f ds c tree"
proof
  assume "(chip, sensor) \<in> contributing_pairs cat f ds c tree"
  then obtain g where g: "g \<in> set (visible_groups f ds c tree)" "group_contributes cat f g"
      "group_key g = (chip, sensor)"
    by (auto simp: contributing_pairs_def discovered_def)
  from g(1) obtain cd' where cd': "(group_chip g, cd') \<in> set tree"
      "(group_sensor g, Mapping (group_fields g)) \<in> set cd'"
    unfolding visible_groups_member by blast
  from g(3) have k: "group_chip g = chip" "group_sensor g = sensor"
    by (simp_all add: group_key_def)
  have "distinct (map fst tree)"
    using assms(1) by (simp add: py_dict_def)
  then have "cd' = cd"
    using cd'(1) assms(2) k(1) by (metis eq_key_imp_eq_value)
  moreover have "distinct (map fst cd)"
    using assms(1,2) by (auto simp: py_dict_def list_all_iff)
  ultimately have "Mapping (group_fields g) = Mapping fs"
    using cd'(2) assms(3) k(2) by (metis eq_key_imp_eq_value)
  then have "contributes cat f chip fs"
    using g(2) k(1) by (simp add: group_contributes_def)
  then show False
    using unrecognized_contributes[OF assms(4)] by simp
qed

text \<open>
  C10. In a raw tree that is a Python dictionary, take a field group of a chip none of
  whose raw field names is recognized (none both starts with \<^verbatim>\<open>temp\<close>, \<^verbatim>\<open>fan\<close> or
  \<^verbatim>\<open>in\<close> and ends with a suffix recognized for that prefix). Then the scan of the group
  leaves its four dictionaries empty, and when the classifier returns a snapshot, none of
  the four sequences has a record for the (chip id, sensor id) pair of the group: there
  is no placeholder record.
\<close>

theorem unrecognized_group_no_record:
  assumes "py_dict tree" and "(chip, cd) \<in> set tree" and "(sensor, Mapping fs) \<in> set cd"
    and "\<forall>nv\<in>set fs. \<not> recognized f chip (fst nv)"
    and "parse_sensors_json f ds c tree = Inr out"
  shows "classify_group f c chip sensor ad fs = empty_dicts \<and>
         (chip, sensor) \<notin> set (map record_key (temps out)) \<and>
         (chip, sensor) \<notin> set (map record_key (hdd_temps out)) \<and>
         (chip, sensor) \<notin> set (map record_key (volts out)) \<and>
         (chip, sensor) \<notin> set (map record_key (fans out))"
  unfolding record_keys_of_sequences[OF assms(5)]
  using classify_group_unrecognized[OF assms(4)] unrecognized_not_contributing[OF assms(1-4)]
  by blast

theorem unrecognized_group_no_record_witness:
  "\<exists>out. py_dict alarm_tree \<and>
     (''coretemp-isa-0000'',
        [(''Package id 0'', Mapping [(''temp1_alarm'', 0)]),
         (''Core 0'', Mapping [(''temp2_input'', 45)])]) \<in> set alarm_tree \<and>
     \<not> recognized Sm_py ''coretemp-isa-0000'' ''temp1_alarm'' \<and>
     parse_sensors_json Sm_py no_dict_str empty_config alarm_tree = Inr out \<and>
     (''coretemp-isa-0000'', ''Package id 0'') \<notin> set (map record_key (temps out)) \<and>
     (''coretemp-isa-0000'', ''Package id 0'') \<notin> set (map record_key (hdd_temps out)) \<and>
     (''coretemp-isa-0000'', ''Package id 0'') \<notin> set (map record_key (volts out)) \<and>
     (''coretemp-isa-0000'', ''Package id 0'') \<notin> set (map record_key (fans out)) \<and>
     map record_key (temps out) = [(''coretemp-isa-0000'', ''Core 0'')]"
proof -
  define out where "out = projr (parse_sensors_json Sm_py no_dict_str empty_config alarm_tree)"
  have d: "py_dict alarm_tree"
    by (simp add: py_dict_def alarm_tree_def)
  have m: "(''coretemp-isa-0000'',
        [(''Package id 0'', Mapping [(''temp1_alarm'', 0::real)]),
         (''Core 0'', Mapping [(''temp2_input'', 45)])]) \<in> set alarm_tree"
    by (simp add: alarm_tree_def)
  have e: "(''Package id 0'', Mapping [(''temp1_alarm'', 0::real)]) \<in>
      set [(''Package id 0'', Mapping [(''temp1_alarm'', 0)]),
           (''Core 0'', Mapping [(''temp2_input'', 45)])]"
    by simp
  have u: "\<forall>nv\<in>set [(''temp1_alarm'', 0::real)]. \<not> recognized Sm_py ''coretemp-isa-0000'' (fst nv)"
    by (simp add: recognized_def ends_with_any_def is_drive_def suffix_def)
  have h: "parse_sensors_json Sm_py no_dict_str empty_config alarm_tree = Inr out"
    unfolding out_def by (simp add: parse_sensors_json_eq visibility_error_empty_config)
  have k: "map record_key (temps out) = [(''coretemp-isa-0000'', ''Core 0'')]"
    unfolding out_def by code_simp
  have r: "\<not> recognized Sm_py ''coretemp-isa-0000'' ''temp1_alarm''"
    using u by simp
  note t = unrecognized_group_no_record[OF d m e u h, THEN conjunct2]
  show ?thesis
    by (rule exI[of _ out])
       (intro conjI d m r h k t[THEN conjunct1] t[THEN conjunct2, THEN conjunct1]
          t[THEN conjunct2, THEN conjunct2, THEN conjunct1]
          t[THEN conjunct2, THEN conjunct2, THEN conjunct2])
qed

section \<open>Entries that are no mappings\<close>





















lemma filter_kept_absent: "k \<notin> fst ` set cd \<Longrightarrow> filter (kept k) cd = cd"
  by (induction cd) (auto simp: kept_def)

lemma drop_entry_other_chips: "chip \<notin> fst ` set tree \<Longrightarrow> drop_entry chip k tree = tree"
  by (induction tree) (auto simp: drop_entry_def)

lemma drop_entry_shape:
  assumes "chip \<notin> fst ` set pre" and "chip \<notin> fst ` set post"
    and "k \<notin> fst ` set cd1" and "k \<notin> fst ` set cd2"
  shows "drop_entry chip k (pre @ (chip, cd1 @ (k, Other s) # cd2) # post) =
         pre @ (chip, cd1 @ cd2) # post"
proof -
  have "drop_entry chip k (pre @ (chip, cd1 @ (k, Other s) # cd2) # post) =
      drop_entry chip k pre @ (chip, filter (kept k) (cd1 @ (k, Other s) # cd2)) # drop_entry chip k post"
    by (simp add: drop_entry_def)
  moreover have "filter (kept k) (cd1 @ (k, Other s) # cd2) = cd1 @ cd2"
    using filter_kept_absent[OF assms(3)] filter_kept_absent[OF assms(4)]
    by (simp add: kept_def)
  ultimately show ?thesis
    by (simp add: drop_entry_other_chips[OF assms(1)] drop_entry_other_chips[OF assms(2)])
qed




end
